theory Spec2Isabelle
  imports Main
begin

section \<open>Python values and exceptions\<close>

text \<open>
  The exceptions that the two handlers of \<^verbatim>\<open>app.py\<close> can meet. \<open>StripeError\<close> carries
  the \<^verbatim>\<open>user_message\<close> attribute of the provider's error (which may be \<^verbatim>\<open>None\<close>);
  \<open>SignatureVerificationError\<close> is a subclass of it in the client library. The others carry
  \<^verbatim>\<open>str(e)\<close>. \<open>KeyError\<close>, \<open>TypeError\<close> and \<open>AttributeError\<close> are what a subscript or a method
  call raises on a value that does not support it.
\<close>

datatype py_exception =
    StripeError "string option"
  | SignatureVerificationError string
  | ValueError string
  | OverflowError string
  | KeyError string
  | TypeError string
  | AttributeError string

text \<open>
  What leaves a handler when it does not return: an \<^verbatim>\<open>HTTPException\<close> raised by the
  handler itself, or an exception that no \<^verbatim>\<open>except\<close> clause caught.
\<close>

datatype raised =
    HTTPException (status_code: nat) (detail: string)
  | Unhandled py_exception

text \<open>
  The values of the client library's objects, as decoded from JSON. \<open>StripeObject g d\<close> is
  an object of the library with the entries \<open>d\<close>; it can be subscripted with a key, and
  \<open>g\<close> says whether its class also has the \<^verbatim>\<open>dict\<close> method \<^verbatim>\<open>get\<close>, which depends on the
  version of the library installed (the repository pins none).
\<close>

datatype pyval =
    PyNone
  | PyBool bool
  | PyInt int
  | PyStr string
  | PyList "pyval list"
  | StripeObject bool "(string \<times> pyval) list"

definition quoted :: "string \<Rightarrow> string" where
  "quoted x = [CHR 0x27] @ x @ [CHR 0x27]"




subsection \<open>Floats\<close>

text \<open>
  \<^verbatim>\<open>price: float\<close> is an IEEE 754 binary64 value. A finite one is \<open>Finite m e\<close>, standing for
  \<open>m * 2 ^ e\<close> with \<open>\<bar>m\<bar> < 2 ^ 53\<close>; the sign of a zero is not kept (\<^verbatim>\<open>int\<close> maps both zeros
  to 0). \<open>Infinity neg\<close> is the infinity of that sign.
\<close>

datatype py_float = Finite int int | Infinity bool | NaN

fun bitlen :: "nat \<Rightarrow> nat" where
  "bitlen n = (if n = 0 then 0 else Suc (bitlen (n div 2)))"

declare bitlen.simps [simp del]

text \<open>\<open>a / 2 ^ s\<close> rounded to the nearest integer, a tie to the even one.\<close>

definition round_half_even :: "nat \<Rightarrow> nat \<Rightarrow> nat" where
  "round_half_even a s =
     (let q = a div 2 ^ s; r = a mod 2 ^ s; h = 2 ^ (s - 1)
      in if s = 0 then a
         else if h < r \<or> (r = h \<and> odd q) then q + 1 else q)"

text \<open>
  The binary64 value nearest to the exact magnitude \<open>a * 2 ^ e\<close>: at most 53 significant
  bits, no exponent under \<open>-1074\<close> (subnormals), infinity from \<open>2 ^ 1024\<close> on.
\<close>

definition float_round :: "bool \<Rightarrow> nat \<Rightarrow> int \<Rightarrow> py_float" where
  "float_round neg a e =
     (let s = max (int (bitlen a) - 53) (- 1074 - e);
          q = (if s \<le> 0 then a else round_half_even a (nat s));
          e' = (if s \<le> 0 then e else e + s)
      in if 1024 < int (bitlen q) + e' then Infinity neg
         else Finite (if neg then - int q else int q) e')"

text \<open>\<^verbatim>\<open>x * y\<close> on floats.\<close>

fun float_mul :: "py_float \<Rightarrow> py_float \<Rightarrow> py_float" where
  "float_mul (Finite m1 e1) (Finite m2 e2) =
     float_round ((m1 < 0) \<noteq> (m2 < 0)) (nat \<bar>m1 * m2\<bar>) (e1 + e2)"
| "float_mul NaN y = NaN"
| "float_mul x NaN = NaN"
| "float_mul (Infinity neg) (Finite m e) =
     (if m = 0 then NaN else Infinity (neg \<noteq> (m < 0)))"
| "float_mul (Finite m e) (Infinity neg) =
     (if m = 0 then NaN else Infinity (neg \<noteq> (m < 0)))"
| "float_mul (Infinity neg1) (Infinity neg2) = Infinity (neg1 \<noteq> neg2)"

text \<open>\<^verbatim>\<open>int(x)\<close> on a float: truncation towards zero; infinities and NaN raise.\<close>

fun py_int :: "py_float \<Rightarrow> py_exception + int" where
  "py_int (Finite m e) =
     Inr (if 0 \<le> e then m * 2 ^ nat e else sgn m * (\<bar>m\<bar> div 2 ^ nat (- e)))"
| "py_int (Infinity neg) = Inl (OverflowError ''cannot convert float infinity to integer'')"
| "py_int NaN = Inl (ValueError ''cannot convert float NaN to integer'')"

section \<open>The payment provider\<close>

text \<open>
  The provider is not part of the repository. Its state is modelled as far as the handlers
  can observe it: the price resources in listing order (most recent first), the checkout
  sessions created, and the calls received. \<open>fault s k\<close> says whether the call number \<open>k\<close>
  fails and with which user message; \<open>fresh_price_id\<close> and \<open>session_url\<close> are the values
  the provider chooses for new objects.
\<close>

record stripe_price =
  id_of :: string
  unit_amount :: int
  currency :: string
  product :: string

record line_item =
  item_price :: string
  quantity :: int

record session_params =
  payment_method_types :: "string list"
  line_items :: "line_item list"
  mode :: string
  customer_email :: string
  success_url :: string
  cancel_url :: string
  metadata :: "(string \<times> string) list"

record checkout_session =
  url :: string
  created_with :: session_params

datatype api_call =
    Price_list_call string nat
  | Price_create_call int string string
  | Session_create_call session_params

record stripe =
  prices :: "stripe_price list"
  sessions :: "checkout_session list"
  calls :: "api_call list"
  fault :: "nat \<Rightarrow> string option option"
  fresh_price_id :: "nat \<Rightarrow> string"
  session_url :: "nat \<Rightarrow> string"

text \<open>\<^verbatim>\<open>stripe.Price.list(product=..., limit=...)\<close>: one page of the product's prices.\<close>

definition Price_list ::
  "string \<Rightarrow> nat \<Rightarrow> stripe \<Rightarrow> (py_exception + stripe_price list) \<times> stripe" where
  "Price_list product_id lim s =
     (let s' = s\<lparr>calls := calls s @ [Price_list_call product_id lim]\<rparr>
      in case fault s (length (calls s)) of
           Some um \<Rightarrow> (Inl (StripeError um), s')
         | None \<Rightarrow> (Inr (take lim (filter (\<lambda>p. product p = product_id) (prices s))), s'))"

text \<open>\<^verbatim>\<open>stripe.Price.create(unit_amount=..., currency=..., product=...)\<close>.\<close>

definition Price_create ::
  "int \<Rightarrow> string \<Rightarrow> string \<Rightarrow> stripe \<Rightarrow> (py_exception + stripe_price) \<times> stripe" where
  "Price_create amount cur product_id s =
     (let s' = s\<lparr>calls := calls s @ [Price_create_call amount cur product_id]\<rparr>
      in case fault s (length (calls s)) of
           Some um \<Rightarrow> (Inl (StripeError um), s')
         | None \<Rightarrow>
             (let p = \<lparr>id_of = ''price_'' @ fresh_price_id s (length (prices s)),
                       unit_amount = amount, currency = cur, product = product_id\<rparr>
              in (Inr p, s'\<lparr>prices := p # prices s\<rparr>)))"

text \<open>\<^verbatim>\<open>stripe.checkout.Session.create(...)\<close>.\<close>

definition Session_create ::
  "session_params \<Rightarrow> stripe \<Rightarrow> (py_exception + checkout_session) \<times> stripe" where
  "Session_create ps s =
     (let s' = s\<lparr>calls := calls s @ [Session_create_call ps]\<rparr>
      in case fault s (length (calls s)) of
           Some um \<Rightarrow> (Inl (StripeError um), s')
         | None \<Rightarrow>
             (let cs = \<lparr>url = session_url s (length (sessions s)), created_with = ps\<rparr>
              in (Inr cs, s'\<lparr>sessions := sessions s @ [cs]\<rparr>)))"

section \<open>utils.py\<close>

text \<open>The loop of \<^verbatim>\<open>get_existing_price\<close> over the page it was given.\<close>

fun first_match :: "stripe_price list \<Rightarrow> int \<Rightarrow> string \<Rightarrow> string option" where
  "first_match [] amount cur = None"
| "first_match (p # ps) amount cur =
     (if unit_amount p = amount \<and> currency p = cur then Some (id_of p)
      else first_match ps amount cur)"

definition get_existing_price ::
  "string \<Rightarrow> int \<Rightarrow> string \<Rightarrow> stripe \<Rightarrow> (py_exception + string option) \<times> stripe" where
  "get_existing_price product_id amount cur s =
     (case Price_list product_id 100 s of
        (Inl e, s') \<Rightarrow> (Inl e, s')
      | (Inr page, s') \<Rightarrow> (Inr (first_match page amount cur), s'))"

definition create_new_price ::
  "string \<Rightarrow> int \<Rightarrow> string \<Rightarrow> stripe \<Rightarrow> (py_exception + string) \<times> stripe" where
  "create_new_price product_id amount cur s =
     (case Price_create amount cur product_id s of
        (Inl e, s') \<Rightarrow> (Inl e, s')
      | (Inr custom_price, s') \<Rightarrow> (Inr (id_of custom_price), s'))"

section \<open>models.py and the configuration\<close>

text \<open>
  The request after validation; \<open>price\<close> is 1 when the body gives none.
\<close>

record SubscriptionRequest =
  subscription_type :: string
  user_email :: string
  price :: py_float

text \<open>The values \<^verbatim>\<open>app.py\<close> reads from the environment when it is loaded.\<close>

record config =
  standard_price_id :: string
  custom_sub_id :: string
  webhook_secret :: string

definition DOMAIN :: string where
  "DOMAIN = ''http://localhost:8000''"

section \<open>app.py: the checkout handler\<close>

text \<open>\<^verbatim>\<open>not price_id\<close>: true of \<^verbatim>\<open>None\<close> and of the empty string.\<close>

fun falsy :: "string option \<Rightarrow> bool" where
  "falsy None = True"
| "falsy (Some i) = (i = [])"

definition invalid_type_message :: string where
  "invalid_type_message =
     ''Invalid subscription type. Must be '' @ [CHR 0x27] @ ''standard'' @ [CHR 0x27]
       @ '' or '' @ [CHR 0x27] @ ''custom'' @ [CHR 0x27] @ ''.''"

text \<open>
  The first statement of the \<^verbatim>\<open>try\<close> block: the branch on \<^verbatim>\<open>subscription_type\<close>, which
  gives \<^verbatim>\<open>price_id\<close> and \<^verbatim>\<open>sub_mode\<close>. In \<^verbatim>\<open>request.price * 100\<close> the integer 100 is
  converted to the float \<open>Finite 100 0\<close>, which is exact. The currency is the default
  \<^verbatim>\<open>'eur'\<close> of the two functions of \<^verbatim>\<open>utils.py\<close>.
\<close>

definition resolve_price ::
  "config \<Rightarrow> SubscriptionRequest \<Rightarrow> stripe \<Rightarrow> (py_exception + string \<times> string) \<times> stripe" where
  "resolve_price cfg request s =
     (if subscription_type request = ''standard'' then
        (Inr (standard_price_id cfg, ''subscription''), s)
      else if subscription_type request = ''custom'' then
        (case py_int (float_mul (price request) (Finite 100 0)) of
           Inl e \<Rightarrow> (Inl e, s)
         | Inr amount_in_cents \<Rightarrow>
             (case get_existing_price (custom_sub_id cfg) amount_in_cents ''eur'' s of
                (Inl e, s1) \<Rightarrow> (Inl e, s1)
              | (Inr found, s1) \<Rightarrow>
                  (if falsy found then
                     (case create_new_price (custom_sub_id cfg) amount_in_cents ''eur'' s1 of
                        (Inl e, s2) \<Rightarrow> (Inl e, s2)
                      | (Inr new_id, s2) \<Rightarrow> (Inr (new_id, ''payment''), s2))
                   else (Inr (case found of Some i \<Rightarrow> i | None \<Rightarrow> [], ''payment''), s1))))
      else (Inl (ValueError invalid_type_message), s))"

text \<open>The arguments of the call that creates the session.\<close>

definition session_args :: "SubscriptionRequest \<Rightarrow> string \<Rightarrow> string \<Rightarrow> session_params" where
  "session_args request price_id sub_mode =
     \<lparr>payment_method_types = [''card''],
      line_items = [\<lparr>item_price = price_id, quantity = 1\<rparr>],
      mode = sub_mode,
      customer_email = user_email request,
      success_url = DOMAIN @ ''/success.html'',
      cancel_url = DOMAIN @ ''/cancel.html'',
      metadata = [(''user_email'', user_email request)]\<rparr>"

text \<open>The whole \<^verbatim>\<open>try\<close> block.\<close>

definition try_block ::
  "config \<Rightarrow> SubscriptionRequest \<Rightarrow> stripe
     \<Rightarrow> (py_exception + (string \<times> string) list) \<times> stripe" where
  "try_block cfg request s =
     (case resolve_price cfg request s of
        (Inl e, s1) \<Rightarrow> (Inl e, s1)
      | (Inr (price_id, sub_mode), s1) \<Rightarrow>
          (case Session_create (session_args request price_id sub_mode) s1 of
             (Inl e, s2) \<Rightarrow> (Inl e, s2)
           | (Inr session, s2) \<Rightarrow> (Inr [(''url'', url session)], s2)))"

text \<open>
  The two \<^verbatim>\<open>except\<close> clauses, in their order: \<^verbatim>\<open>stripe.error.StripeError\<close> (with its
  subclasses), then \<^verbatim>\<open>Exception\<close>. \<^verbatim>\<open>None\<close> in an f-string reads \<^verbatim>\<open>None\<close>.
\<close>

fun except_clauses :: "py_exception \<Rightarrow> raised" where
  "except_clauses (StripeError um) =
     HTTPException 400 (''Stripe error: '' @ (case um of None \<Rightarrow> ''None'' | Some m \<Rightarrow> m))"
| "except_clauses (SignatureVerificationError m) =
     HTTPException 400 (''Stripe error: '' @ m)"
| "except_clauses (ValueError m) = HTTPException 400 (''An error occurred: '' @ m)"
| "except_clauses (OverflowError m) = HTTPException 400 (''An error occurred: '' @ m)"
| "except_clauses (KeyError m) = HTTPException 400 (''An error occurred: '' @ m)"
| "except_clauses (TypeError m) = HTTPException 400 (''An error occurred: '' @ m)"
| "except_clauses (AttributeError m) = HTTPException 400 (''An error occurred: '' @ m)"

definition create_subscription_session ::
  "config \<Rightarrow> SubscriptionRequest \<Rightarrow> stripe \<Rightarrow> (raised + (string \<times> string) list) \<times> stripe" where
  "create_subscription_session cfg request s =
     (case try_block cfg request s of
        (Inl e, s') \<Rightarrow> (Inl (except_clauses e), s')
      | (Inr response, s') \<Rightarrow> (Inr response, s'))"

section \<open>app.py: the webhook handler\<close>

text \<open>
  The HTTP request as the handler reads it: the raw body and the headers (names in lower
  case, as the framework looks them up).
\<close>

record Request =
  body :: string
  headers :: "(string \<times> string) list"

text \<open>\<^verbatim>\<open>JSONResponse(content)\<close>: the framework's response object, of status 200 by default.\<close>

record response =
  response_status :: nat
  content :: "(string \<times> bool) list"






section \<open>Vocabulary of the statements and example values\<close>

text \<open>
  What \<^verbatim>\<open>get_existing_price\<close> gets to see of a product: the first 100 of its prices in the
  provider's listing order.
\<close>

definition first_page :: "string \<Rightarrow> stripe \<Rightarrow> stripe_price list" where
  "first_page product_id s = take 100 (filter (\<lambda>p. product p = product_id) (prices s))"

definition example_config :: config where
  "example_config = \<lparr>standard_price_id = ''price_standard'', custom_sub_id = ''prod_custom'',
     webhook_secret = ''whsec_test''\<rparr>"

text \<open>A provider holding the given prices, with no call received yet and no failure ahead.\<close>

definition quiet_stripe :: "stripe_price list \<Rightarrow> stripe" where
  "quiet_stripe ps = \<lparr>prices = ps, sessions = [], calls = [], fault = (\<lambda>k. None),
     fresh_price_id = (\<lambda>k. ''new''), session_url = (\<lambda>k. ''https://checkout.example/cs_1'')\<rparr>"

text \<open>The same provider, except that the first call it receives fails.\<close>

definition declining_stripe :: stripe where
  "declining_stripe = (quiet_stripe [])
     \<lparr>fault := (\<lambda>k. if k = 0 then Some (Some ''Your card was declined.'') else None)\<rparr>"

text \<open>
  \<^verbatim>\<open>{subscription_type: "custom", user_email: "a@b.com", price: 19.99}\<close>. The binary64 value
  that the literal 19.99 denotes is \<^verbatim>\<open>0x1.3fd70a3d70a3dp+4\<close>, that is
  \<open>5626684784446013 * 2 ^ -48\<close>, a little under 19.99.
\<close>

definition request_19_99 :: SubscriptionRequest where
  "request_19_99 = \<lparr>subscription_type = ''custom'', user_email = ''a@b.com'',
     price = Finite 5626684784446013 (- 48)\<rparr>"

definition request_10 :: SubscriptionRequest where
  "request_10 = \<lparr>subscription_type = ''custom'', user_email = ''a@b.com'', price = Finite 10 0\<rparr>"

definition request_standard :: SubscriptionRequest where
  "request_standard = \<lparr>subscription_type = ''standard'', user_email = ''a@b.com'',
     price = Finite 1 0\<rparr>"

definition request_premium :: SubscriptionRequest where
  "request_premium = \<lparr>subscription_type = ''premium'', user_email = ''a@b.com'',
     price = Finite 1 0\<rparr>"

definition other_price :: stripe_price where
  "other_price = \<lparr>id_of = ''price_other'', unit_amount = 500, currency = ''eur'',
     product = ''prod_custom''\<rparr>"

definition old_price :: stripe_price where
  "old_price = \<lparr>id_of = ''price_old'', unit_amount = 1000, currency = ''eur'',
     product = ''prod_custom''\<rparr>"

text \<open>
  A stand-in for the library's verifier in the examples, with the library's order of
  steps. It takes the signature header to be valid when it is the secret itself. Of a
  signed payload it then makes what the library makes of the JSON text: nothing of an
  empty body (\<^verbatim>\<open>ValueError\<close> of the JSON decoder); no event of the array \<^verbatim>\<open>[]\<close>
  (\<^verbatim>\<open>AttributeError\<close>, an event being built from a JSON object only); the event without
  entries of \<^verbatim>\<open>{}\<close>. The payload \<open>bare\<close> stands for an event that has the type
  \<open>checkout.session.completed\<close> and nothing else, and any other payload for an event
  of the type that the payload spells, with a session under \<open>data.object\<close>.
\<close>

definition example_construct_event :: "string \<Rightarrow> string option \<Rightarrow> string \<Rightarrow> py_exception + pyval" where
  "example_construct_event payload sig_header secret =
     (if sig_header \<noteq> Some secret then
        Inl (SignatureVerificationError
               ''No signatures found matching the expected signature for payload'')
      else if payload = [] then Inl (ValueError ''Expecting value: line 1 column 1 (char 0)'')
      else if payload = ''[]'' then
        Inl (AttributeError (quoted ''list'' @ '' object has no attribute '' @ quoted ''get''))
      else if payload = ''{}'' then Inr (StripeObject True [])
      else if payload = ''bare'' then
        Inr (StripeObject True [(''type'', PyStr ''checkout.session.completed'')])
      else
        Inr (StripeObject True
              [(''type'', PyStr payload),
               (''data'', StripeObject True
                  [(''object'', StripeObject True [(''customer_email'', PyStr ''a@b.com'')])])]))"

definition signed_request :: "string \<Rightarrow> Request" where
  "signed_request payload = \<lparr>body = payload, headers = [(''stripe-signature'', ''whsec_test'')]\<rparr>"

definition unsigned_request :: "string \<Rightarrow> Request" where
  "unsigned_request payload = \<lparr>body = payload, headers = []\<rparr>"

section \<open>Evaluation and helper lemmas\<close>

lemmas provider_defs = Price_list_def Price_create_def Session_create_def

lemmas handler_defs = create_subscription_session_def try_block_def resolve_price_def
  get_existing_price_def create_new_price_def

lemmas example_defs = example_config_def quiet_stripe_def declining_stripe_def request_19_99_def
  request_10_def request_standard_def request_premium_def other_price_def old_price_def
  example_construct_event_def signed_request_def unsigned_request_def

text \<open>
  Two checks of the float model: the rounded mantissa is within half a unit of the exact
  one, and \<^verbatim>\<open>int\<close> of a float with a fractional part drops that part, keeping the sign.
\<close>

lemma round_half_even_nearest:
  assumes "0 < s"
  shows "2 * a \<le> (2 * round_half_even a s + 1) * 2 ^ s
       \<and> 2 * round_half_even a s * 2 ^ s \<le> 2 * a + 2 ^ s"
proof -
  define q where "q = a div 2 ^ s"
  define r where "r = a mod 2 ^ s"
  define h :: nat where "h = 2 ^ (s - 1)"
  have a: "a = q * 2 ^ s + r"
    using div_mult_mod_eq[of a "2 ^ s"] by (simp add: q_def r_def)
  have r: "r < 2 ^ s" by (simp add: r_def)
  have hh: "(2::nat) ^ s = 2 * h" using assms by (cases s) (simp_all add: h_def)
  have rhe: "round_half_even a s = (if h < r \<or> (r = h \<and> odd q) then q + 1 else q)"
    using assms by (simp add: round_half_even_def Let_def q_def r_def h_def)
  show ?thesis
  proof (cases "h < r \<or> (r = h \<and> odd q)")
    case True
    then have le: "h \<le> r" by auto
    from True have "round_half_even a s = q + 1" by (simp add: rhe)
    then show ?thesis using r le unfolding a hh by (simp add: algebra_simps)
  next
    case False
    then have le: "r \<le> h" by auto
    from False have "round_half_even a s = q" by (simp add: rhe)
    then show ?thesis using r le unfolding a hh by (simp add: algebra_simps)
  qed
qed

lemma py_int_towards_zero:
  assumes "py_int (Finite m e) = Inr k" and "e < 0"
  shows "\<bar>k\<bar> * 2 ^ nat (- e) \<le> \<bar>m\<bar> \<and> \<bar>m\<bar> < (\<bar>k\<bar> + 1) * 2 ^ nat (- e)
       \<and> (k = 0 \<or> sgn k = sgn m)"
proof -
  let ?d = "(2::int) ^ nat (- e)"
  have d: "0 < ?d" by simp
  from assms have k: "k = sgn m * (\<bar>m\<bar> div ?d)" by simp
  have nn: "0 \<le> \<bar>m\<bar> div ?d" by (simp add: pos_imp_zdiv_nonneg_iff)
  then have ak: "\<bar>k\<bar> = (if m = 0 then 0 else \<bar>m\<bar> div ?d)"
    by (simp add: k abs_mult)
  have split: "\<bar>m\<bar> = (\<bar>m\<bar> div ?d) * ?d + \<bar>m\<bar> mod ?d"
    by (rule div_mult_mod_eq[symmetric])
  have lo: "0 \<le> \<bar>m\<bar> mod ?d" and hi: "\<bar>m\<bar> mod ?d < ?d" using d by simp_all
  have "(\<bar>m\<bar> div ?d) * ?d \<le> \<bar>m\<bar>" using split lo by linarith
  moreover have "\<bar>m\<bar> < (\<bar>m\<bar> div ?d + 1) * ?d"
  proof -
    have "(\<bar>m\<bar> div ?d + 1) * ?d = (\<bar>m\<bar> div ?d) * ?d + ?d" by (simp add: algebra_simps)
    with split hi show ?thesis by linarith
  qed
  moreover have "k = 0 \<or> sgn k = sgn m"
    using nn by (auto simp: k sgn_mult)
  ultimately show ?thesis by (auto simp: ak)
qed

text \<open>The literal 19.99: no binary64 value is nearer to \<open>1999 / 100\<close> than the one used.\<close>

lemma literal_19_99_nearest:
  "\<bar>5626684784446013 * 100 - 1999 * 2 ^ 48\<bar> * 2 \<le> (100 :: int)"
  by simp

lemma amount_19_99:
  "py_int (float_mul (price request_19_99) (Finite 100 0)) = Inr 1998"
  by (simp add: request_19_99_def float_round_def round_half_even_def Let_def bitlen.simps)

lemma amount_10: "py_int (float_mul (price request_10) (Finite 100 0)) = Inr 1000"
  by (simp add: request_10_def float_round_def Let_def bitlen.simps)

lemma first_match_None_iff:
  "first_match ps a c = None \<longleftrightarrow> (\<forall>p\<in>set ps. \<not> (unit_amount p = a \<and> currency p = c))"
  by (induction ps) auto

lemma first_match_Some:
  "first_match ps a c = Some i \<Longrightarrow>
     \<exists>k<length ps. id_of (ps ! k) = i \<and> unit_amount (ps ! k) = a \<and> currency (ps ! k) = c
        \<and> (\<forall>j<k. \<not> (unit_amount (ps ! j) = a \<and> currency (ps ! j) = c))"
proof (induction ps)
  case Nil
  then show ?case by simp
next
  case (Cons p ps)
  show ?case
  proof (cases "unit_amount p = a \<and> currency p = c")
    case True
    with Cons.prems have "id_of p = i" by simp
    with True show ?thesis by (intro exI[of _ 0]) simp
  next
    case False
    with Cons.prems have "first_match ps a c = Some i" by auto
    from Cons.IH[OF this] obtain k where k: "k < length ps" "id_of (ps ! k) = i"
      "unit_amount (ps ! k) = a" "currency (ps ! k) = c"
      "\<forall>j<k. \<not> (unit_amount (ps ! j) = a \<and> currency (ps ! j) = c)" by blast
    have "\<forall>j<Suc k. \<not> (unit_amount ((p # ps) ! j) = a \<and> currency ((p # ps) ! j) = c)"
    proof (intro allI impI)
      fix j assume "j < Suc k"
      then show "\<not> (unit_amount ((p # ps) ! j) = a \<and> currency ((p # ps) ! j) = c)"
        using False k(5) by (cases j) auto
    qed
    with k show ?thesis by (intro exI[of _ "Suc k"]) simp
  qed
qed

lemma first_match_id:
  "first_match ps a c = Some i \<Longrightarrow> \<exists>p\<in>set ps. id_of p = i"
  by (induction ps) (auto split: if_splits)

lemma first_match_replicate:
  "\<not> (unit_amount p = a \<and> currency p = c) \<Longrightarrow> first_match (replicate n p) a c = None"
  by (induction n) auto

lemma match_not_falsy:
  assumes "\<forall>p\<in>set ps. id_of p \<noteq> []"
    and "\<exists>p\<in>set ps. unit_amount p = a \<and> currency p = c"
  shows "\<not> falsy (first_match ps a c)"
proof (cases "first_match ps a c")
  case None
  with assms(2) show ?thesis by (auto simp: first_match_None_iff)
next
  case (Some i)
  from first_match_id[OF Some] assms(1) have "i \<noteq> []" by auto
  with Some show ?thesis by simp
qed

lemma first_page_subset: "set (first_page pid s) \<subseteq> set (prices s)"
  by (auto simp: first_page_def dest: in_set_takeD)

lemma first_page_new:
  "prices s1 = \<lparr>id_of = i, unit_amount = a, currency = c, product = pid\<rparr> # ps \<Longrightarrow>
     first_match (first_page pid s1) a c = Some i"
  by (simp add: first_page_def)

lemma py_int_errors:
  "py_int x = Inl e \<Longrightarrow> (\<exists>m. e = ValueError m \<or> e = OverflowError m)"
  by (cases x) auto

lemma resolve_standard:
  "subscription_type request = ''standard'' \<Longrightarrow>
     resolve_price cfg request s = (Inr (standard_price_id cfg, ''subscription''), s)"
  by (simp add: resolve_price_def)

lemma resolve_custom_mode:
  assumes "subscription_type request = ''custom''"
    and "resolve_price cfg request s = (Inr (pid, m), s1)"
  shows "m = ''payment''"
  using assms
  by (auto simp: resolve_price_def get_existing_price_def create_new_price_def
      split: sum.splits prod.splits if_splits)

lemma resolve_custom_prices:
  assumes "subscription_type request = ''custom''"
    and "py_int (float_mul (price request) (Finite 100 0)) = Inr a"
  shows "prices (snd (resolve_price cfg request s)) = prices s
     \<or> (falsy (first_match (first_page (custom_sub_id cfg) s) a ''eur'')
        \<and> prices (snd (resolve_price cfg request s)) =
            \<lparr>id_of = ''price_'' @ fresh_price_id s (length (prices s)), unit_amount = a,
              currency = ''eur'', product = custom_sub_id cfg\<rparr> # prices s)"
  using assms
  by (auto simp: resolve_price_def get_existing_price_def create_new_price_def provider_defs
      first_page_def Let_def split: option.splits)

lemma session_call_logged:
  assumes "resolve_price cfg request s = (Inr (pid, m), s1)"
  shows "calls (snd (create_subscription_session cfg request s)) =
           calls s1 @ [Session_create_call (session_args request pid m)]"
  using assms
  by (simp add: create_subscription_session_def try_block_def Session_create_def Let_def
      split: option.splits)

lemma session_url_returned:
  assumes "resolve_price cfg request s = (Inr (pid, m), s1)"
    and "fault s1 (length (calls s1)) = None"
  shows "create_subscription_session cfg request s =
           (Inr [(''url'', session_url s1 (length (sessions s1)))],
            s1\<lparr>calls := calls s1 @ [Session_create_call (session_args request pid m)],
               sessions := sessions s1 @ [\<lparr>url = session_url s1 (length (sessions s1)),
                              created_with = session_args request pid m\<rparr>]\<rparr>)"
  using assms
  by (simp add: create_subscription_session_def try_block_def Session_create_def Let_def)

lemma css_prices:
  "prices (snd (create_subscription_session cfg request s)) =
     prices (snd (resolve_price cfg request s))"
  by (simp add: create_subscription_session_def try_block_def Session_create_def Let_def
      split: prod.splits sum.splits option.splits)

lemma css_of_try_block:
  "create_subscription_session cfg request s =
     (case fst (try_block cfg request s) of
        Inl e \<Rightarrow> (Inl (except_clauses e), snd (try_block cfg request s))
      | Inr r \<Rightarrow> (Inr r, snd (try_block cfg request s)))"
  by (simp add: create_subscription_session_def split: prod.splits sum.splits)

lemma try_block_error_kinds:
  assumes "try_block cfg request s = (Inl e, s')"
  shows "(\<exists>um. e = StripeError um \<and> calls s' \<noteq> calls s
             \<and> fault s (length (calls s') - 1) = Some um)
       \<or> ((\<exists>m. e = ValueError m \<or> e = OverflowError m) \<and> s' = s)"
  using assms
  by (auto simp: try_block_def resolve_price_def get_existing_price_def create_new_price_def
      provider_defs Let_def
      split: sum.splits prod.splits if_splits option.splits dest: py_int_errors)

lemma try_block_calls:
  "\<exists>new. calls (snd (try_block cfg request s)) = calls s @ new \<and> length new \<le> 3
     \<and> (\<forall>k<length new. \<forall>um. fault s (length (calls s) + k) = Some um \<longrightarrow>
           Suc k = length new \<and> fst (try_block cfg request s) = Inl (StripeError um))"
  by (auto simp: try_block_def resolve_price_def get_existing_price_def create_new_price_def
      provider_defs Let_def less_Suc_eq nth_append
      split: sum.splits prod.splits if_splits option.splits)

lemma resolve_request_10:
  "resolve_price example_config request_10 (quiet_stripe [old_price]) =
     (Inr (''price_old'', ''payment''),
      (quiet_stripe [old_price])\<lparr>calls := [Price_list_call ''prod_custom'' 100]\<rparr>)"
  using amount_10
  by (simp add: resolve_price_def get_existing_price_def Price_list_def example_config_def
      quiet_stripe_def old_price_def request_10_def del: float_mul.simps)

section \<open>The checkout handler\<close>

text \<open>
  C1. The amount of a custom request is \<^verbatim>\<open>int(request.price * 100)\<close>, with the product
  taken in binary64. For \<^verbatim>\<open>{subscription_type: "custom", user_email: "a@b.com", price: 19.99}\<close>
  and a provider holding no price, the product is \<open>1998.9999999999998\<close> and the handler
  lists the product's prices, creates a price of \<open>unit_amount = 1998\<close> in \<open>eur\<close> (not 1999) and
  returns the session's url.
\<close>

theorem custom_19_99_creates_1998:
  "float_mul (price request_19_99) (Finite 100 0) = Finite 8791694975696895 (- 42)
   \<and> fst (create_subscription_session example_config request_19_99 (quiet_stripe [])) =
       Inr [(''url'', ''https://checkout.example/cs_1'')]
   \<and> prices (snd (create_subscription_session example_config request_19_99 (quiet_stripe []))) =
       [\<lparr>id_of = ''price_new'', unit_amount = 1998, currency = ''eur'', product = ''prod_custom''\<rparr>]
   \<and> calls (snd (create_subscription_session example_config request_19_99 (quiet_stripe []))) =
       [Price_list_call ''prod_custom'' 100, Price_create_call 1998 ''eur'' ''prod_custom'',
        Session_create_call (session_args request_19_99 ''price_new'' ''payment'')]"
proof -
  have "float_mul (price request_19_99) (Finite 100 0) = Finite 8791694975696895 (- 42)"
    by (simp add: request_19_99_def float_round_def round_half_even_def Let_def bitlen.simps)
  moreover have "create_subscription_session example_config request_19_99 (quiet_stripe []) =
      (Inr [(''url'', ''https://checkout.example/cs_1'')],
       (quiet_stripe [])\<lparr>prices := [\<lparr>id_of = ''price_new'', unit_amount = 1998,
            currency = ''eur'', product = ''prod_custom''\<rparr>],
          calls := [Price_list_call ''prod_custom'' 100,
            Price_create_call 1998 ''eur'' ''prod_custom'',
            Session_create_call (session_args request_19_99 ''price_new'' ''payment'')],
          sessions := [\<lparr>url = ''https://checkout.example/cs_1'',
            created_with = session_args request_19_99 ''price_new'' ''payment''\<rparr>]\<rparr>)"
    using amount_19_99
    by (simp add: handler_defs provider_defs example_config_def quiet_stripe_def Let_def
        request_19_99_def del: float_mul.simps)
  ultimately show ?thesis by simp
qed

text \<open>
  C2. A price is to be created only when the product has no price of the same amount and
  currency, so that no second equivalent price is ever created. \<^verbatim>\<open>get_existing_price\<close>
  reads one page of 100 prices and stops there. With a product of 101 prices, the oldest
  of which has the amount asked for, the handler does not find that price and creates a
  second one with the same product, amount and currency.
\<close>

theorem duplicate_beyond_first_page:
  "old_price \<in> set (prices (quiet_stripe (replicate 100 other_price @ [old_price])))
   \<and> product old_price = custom_sub_id example_config
   \<and> unit_amount old_price = 1000 \<and> currency old_price = ''eur''
   \<and> prices (snd (create_subscription_session example_config request_10
        (quiet_stripe (replicate 100 other_price @ [old_price])))) =
      \<lparr>id_of = ''price_new'', unit_amount = 1000, currency = ''eur'', product = ''prod_custom''\<rparr>
        # replicate 100 other_price @ [old_price]"
  using amount_10
  by (simp add: handler_defs provider_defs example_config_def quiet_stripe_def Let_def
      request_10_def other_price_def old_price_def first_match_replicate
      del: float_mul.simps)

text \<open>
  What the lookup does guarantee. Let the request be custom with amount \<open>a\<close>, and let
  every price of the provider have a non-empty id. A price is created only when none of
  the first 100 prices listed for the product has amount \<open>a\<close> and currency \<open>eur\<close>, and the
  price created has this product, amount and currency. When one of the first 100 matches,
  no price is created by this invocation or by the next one, and, the listing call
  succeeding, the session is created for the id of the first match. After an invocation
  that created a price the next one creates none; two invocations in a row create at most
  one price.
\<close>

theorem custom_price_dedup:
  assumes "subscription_type request = ''custom''"
    and "py_int (float_mul (price request) (Finite 100 0)) = Inr a"
    and "\<forall>p\<in>set (prices s). id_of p \<noteq> []"
  shows "let s1 = snd (create_subscription_session cfg request s);
             s2 = snd (create_subscription_session cfg request s1);
             page = first_page (custom_sub_id cfg) s
         in (prices s1 \<noteq> prices s \<longrightarrow>
               (\<forall>p\<in>set page. \<not> (unit_amount p = a \<and> currency p = ''eur''))
               \<and> (\<exists>i. prices s1 = \<lparr>id_of = i, unit_amount = a, currency = ''eur'',
                                     product = custom_sub_id cfg\<rparr> # prices s)
               \<and> prices s2 = prices s1)
          \<and> ((\<exists>p\<in>set page. unit_amount p = a \<and> currency p = ''eur'') \<longrightarrow>
               prices s1 = prices s \<and> prices s2 = prices s
               \<and> (fault s (length (calls s)) = None \<longrightarrow>
                    (\<exists>i. first_match page a ''eur'' = Some i
                       \<and> calls s1 = calls s @ [Price_list_call (custom_sub_id cfg) 100,
                            Session_create_call (session_args request i ''payment'')])))
          \<and> length (prices s2) \<le> length (prices s) + 1"
proof -
  define s1 where "s1 = snd (create_subscription_session cfg request s)"
  define s2 where "s2 = snd (create_subscription_session cfg request s1)"
  define page where "page = first_page (custom_sub_id cfg) s"
  have wf_page: "\<forall>p\<in>set page. id_of p \<noteq> []"
    using assms(3) first_page_subset[of "custom_sub_id cfg" s] by (auto simp: page_def)
  have step1: "prices s1 = prices s
     \<or> (falsy (first_match page a ''eur'')
        \<and> prices s1 = \<lparr>id_of = ''price_'' @ fresh_price_id s (length (prices s)), unit_amount = a,
              currency = ''eur'', product = custom_sub_id cfg\<rparr> # prices s)"
    using resolve_custom_prices[OF assms(1,2), of cfg s]
    by (simp add: s1_def page_def css_prices)
  have step2: "prices s2 = prices s1
     \<or> (falsy (first_match (first_page (custom_sub_id cfg) s1) a ''eur'')
        \<and> prices s2 = \<lparr>id_of = ''price_'' @ fresh_price_id s1 (length (prices s1)), unit_amount = a,
              currency = ''eur'', product = custom_sub_id cfg\<rparr> # prices s1)"
    using resolve_custom_prices[OF assms(1,2), of cfg s1]
    by (simp add: s2_def css_prices)
  have no_match: "\<forall>p\<in>set page. \<not> (unit_amount p = a \<and> currency p = ''eur'')"
    if "falsy (first_match page a ''eur'')"
    using that match_not_falsy[OF wf_page, of a "''eur''"] by blast
  have created: "prices s2 = prices s1" if "prices s1 \<noteq> prices s"
  proof -
    from that step1 have p1: "prices s1 =
        \<lparr>id_of = ''price_'' @ fresh_price_id s (length (prices s)), unit_amount = a,
          currency = ''eur'', product = custom_sub_id cfg\<rparr> # prices s" by blast
    from first_page_new[OF p1]
    have "\<not> falsy (first_match (first_page (custom_sub_id cfg) s1) a ''eur'')" by simp
    with step2 show ?thesis by blast
  qed
  have A: "prices s1 \<noteq> prices s \<longrightarrow>
               (\<forall>p\<in>set page. \<not> (unit_amount p = a \<and> currency p = ''eur''))
               \<and> (\<exists>i. prices s1 = \<lparr>id_of = i, unit_amount = a, currency = ''eur'',
                                     product = custom_sub_id cfg\<rparr> # prices s)
               \<and> prices s2 = prices s1"
    using step1 no_match created by blast
  have same1: "prices s1 = prices s"
    if m: "\<exists>p\<in>set page. unit_amount p = a \<and> currency p = ''eur''"
    using step1 no_match m by blast
  have same2: "prices s2 = prices s"
    if m: "\<exists>p\<in>set page. unit_amount p = a \<and> currency p = ''eur''"
  proof -
    have eq: "first_page (custom_sub_id cfg) s1 = page"
      using same1[OF m] by (simp add: first_page_def page_def)
    from m match_not_falsy[OF wf_page, of a "''eur''"]
    have "\<not> falsy (first_match page a ''eur'')" by blast
    with step2 eq same1[OF m] show ?thesis by simp
  qed
  have reuse: "\<exists>i. first_match page a ''eur'' = Some i
                 \<and> calls s1 = calls s @ [Price_list_call (custom_sub_id cfg) 100,
                      Session_create_call (session_args request i ''payment'')]"
    if m: "\<exists>p\<in>set page. unit_amount p = a \<and> currency p = ''eur''"
      and f: "fault s (length (calls s)) = None"
  proof -
    from m match_not_falsy[OF wf_page, of a "''eur''"]
    have nf: "\<not> falsy (first_match page a ''eur'')" by blast
    then obtain i where i: "first_match page a ''eur'' = Some i" "i \<noteq> []"
      by (cases "first_match page a ''eur''") auto
    have "calls s1 = calls s @ [Price_list_call (custom_sub_id cfg) 100,
                      Session_create_call (session_args request i ''payment'')]"
      using assms(1,2) f i
      by (simp add: s1_def page_def first_page_def handler_defs provider_defs Let_def
          split: option.splits del: float_mul.simps)
    with i show ?thesis by blast
  qed
  have C: "length (prices s2) \<le> length (prices s) + 1"
  proof (cases "prices s1 = prices s")
    case True
    with step2 show ?thesis by auto
  next
    case False
    from created[OF False] step1 False show ?thesis by auto
  qed
  from A same1 same2 reuse C show ?thesis
    unfolding Let_def s1_def[symmetric] s2_def[symmetric] page_def[symmetric] by blast
qed

theorem custom_price_dedup_witness:
  "subscription_type request_10 = ''custom''
   \<and> py_int (float_mul (price request_10) (Finite 100 0)) = Inr 1000
   \<and> [] \<notin> set (map id_of (prices (quiet_stripe [old_price])))
   \<and> (\<exists>p\<in>set (first_page (custom_sub_id example_config) (quiet_stripe [old_price])).
         unit_amount p = 1000 \<and> currency p = ''eur'')
   \<and> prices (snd (create_subscription_session example_config request_10
         (quiet_stripe [old_price]))) = [old_price]
   \<and> prices (snd (create_subscription_session example_config request_10
         (quiet_stripe []))) \<noteq> prices (quiet_stripe [])
   \<and> prices (snd (create_subscription_session example_config request_10
         (snd (create_subscription_session example_config request_10 (quiet_stripe []))))) =
       prices (snd (create_subscription_session example_config request_10 (quiet_stripe [])))"
proof -
  have h1: "subscription_type request_10 = ''custom''" by (simp add: request_10_def)
  have h3: "\<forall>p\<in>set (prices (quiet_stripe [old_price])). id_of p \<noteq> []"
    by (simp add: quiet_stripe_def old_price_def)
  have h3': "\<forall>p\<in>set (prices (quiet_stripe [])). id_of p \<noteq> []"
    by (simp add: quiet_stripe_def)
  have m: "\<exists>p\<in>set (first_page (custom_sub_id example_config) (quiet_stripe [old_price])).
         unit_amount p = 1000 \<and> currency p = ''eur''"
    by (simp add: first_page_def quiet_stripe_def old_price_def example_config_def)
  have c: "prices (snd (create_subscription_session example_config request_10
         (quiet_stripe []))) \<noteq> prices (quiet_stripe [])"
    using amount_10
    by (simp add: handler_defs provider_defs example_config_def quiet_stripe_def Let_def
        request_10_def del: float_mul.simps)
  from custom_price_dedup[OF h1 amount_10 h3, of example_config] m
  have "prices (snd (create_subscription_session example_config request_10
         (quiet_stripe [old_price]))) = [old_price]"
    by (simp add: Let_def quiet_stripe_def)
  moreover from custom_price_dedup[OF h1 amount_10 h3', of example_config] c
  have "prices (snd (create_subscription_session example_config request_10
         (snd (create_subscription_session example_config request_10 (quiet_stripe []))))) =
       prices (snd (create_subscription_session example_config request_10 (quiet_stripe [])))"
    by (simp add: Let_def)
  moreover have "[] \<notin> set (map id_of (prices (quiet_stripe [old_price])))"
    by (simp add: quiet_stripe_def old_price_def)
  ultimately show ?thesis using h1 amount_10 m c by blast
qed


text \<open>
  C4. A request whose \<open>subscription_type\<close> is neither \<open>standard\<close> nor \<open>custom\<close> ends in an
  \<^verbatim>\<open>HTTPException\<close> of status 400 whose detail is the handler's message, and the provider is
  left as it was: no call is made, no session exists that did not exist before.
\<close>

theorem invalid_type_rejected:
  assumes "subscription_type request \<noteq> ''standard''"
    and "subscription_type request \<noteq> ''custom''"
  shows "create_subscription_session cfg request s =
           (Inl (HTTPException 400 (''An error occurred: '' @ invalid_type_message)), s)"
  using assms by (simp add: handler_defs)

theorem invalid_type_rejected_witness:
  "subscription_type request_premium \<noteq> ''standard''
   \<and> subscription_type request_premium \<noteq> ''custom''
   \<and> create_subscription_session example_config request_premium (quiet_stripe []) =
       (Inl (HTTPException 400 (''An error occurred: '' @ invalid_type_message)), quiet_stripe [])"
proof -
  have h1: "subscription_type request_premium \<noteq> ''standard''"
    by (simp add: request_premium_def)
  have h2: "subscription_type request_premium \<noteq> ''custom''"
    by (simp add: request_premium_def)
  from invalid_type_rejected[OF h1 h2] h1 h2 show ?thesis by blast
qed

text \<open>
  C5. For \<open>standard\<close> the price id is the configured standard price id and the session is
  asked for in mode \<open>subscription\<close>. For \<open>custom\<close>, whenever a price id is resolved, by
  lookup or by creation, the session is asked for in mode \<open>payment\<close>.
\<close>

theorem price_and_mode_by_type:
  "(subscription_type request = ''standard'' \<longrightarrow>
      resolve_price cfg request s = (Inr (standard_price_id cfg, ''subscription''), s)
      \<and> (\<exists>args. calls (snd (create_subscription_session cfg request s)) =
                   calls s @ [Session_create_call args]
            \<and> line_items args = [\<lparr>item_price = standard_price_id cfg, quantity = 1\<rparr>]
            \<and> mode args = ''subscription''))
   \<and> (subscription_type request = ''custom'' \<longrightarrow>
      (\<forall>pid m s1. resolve_price cfg request s = (Inr (pid, m), s1) \<longrightarrow>
         m = ''payment''
         \<and> (\<exists>args. calls (snd (create_subscription_session cfg request s)) =
                      calls s1 @ [Session_create_call args]
               \<and> line_items args = [\<lparr>item_price = pid, quantity = 1\<rparr>]
               \<and> mode args = ''payment'')))"
proof (intro conjI impI allI)
  assume st: "subscription_type request = ''standard''"
  show "resolve_price cfg request s = (Inr (standard_price_id cfg, ''subscription''), s)"
    by (rule resolve_standard[OF st])
  from session_call_logged[OF resolve_standard[OF st]]
  show "\<exists>args. calls (snd (create_subscription_session cfg request s)) =
                   calls s @ [Session_create_call args]
            \<and> line_items args = [\<lparr>item_price = standard_price_id cfg, quantity = 1\<rparr>]
            \<and> mode args = ''subscription''"
    by (intro exI[of _ "session_args request (standard_price_id cfg) ''subscription''"])
       (simp add: session_args_def)
next
  fix pid m s1
  assume cu: "subscription_type request = ''custom''"
    and r: "resolve_price cfg request s = (Inr (pid, m), s1)"
  show m: "m = ''payment''" by (rule resolve_custom_mode[OF cu r])
  from session_call_logged[OF r] m
  show "\<exists>args. calls (snd (create_subscription_session cfg request s)) =
                      calls s1 @ [Session_create_call args]
               \<and> line_items args = [\<lparr>item_price = pid, quantity = 1\<rparr>]
               \<and> mode args = ''payment''"
    by (intro exI[of _ "session_args request pid ''payment''"]) (simp add: session_args_def)
qed

theorem price_and_mode_by_type_witness:
  "subscription_type request_standard = ''standard''
   \<and> resolve_price example_config request_standard (quiet_stripe []) =
       (Inr (''price_standard'', ''subscription''), quiet_stripe [])
   \<and> subscription_type request_10 = ''custom''
   \<and> resolve_price example_config request_10 (quiet_stripe [old_price]) =
       (Inr (''price_old'', ''payment''),
        (quiet_stripe [old_price])\<lparr>calls := [Price_list_call ''prod_custom'' 100]\<rparr>)
   \<and> (\<exists>args. calls (snd (create_subscription_session example_config request_10
                  (quiet_stripe [old_price]))) =
          [Price_list_call ''prod_custom'' 100, Session_create_call args]
        \<and> line_items args = [\<lparr>item_price = ''price_old'', quantity = 1\<rparr>]
        \<and> mode args = ''payment'')"
proof -
  have h1: "subscription_type request_standard = ''standard''"
    by (simp add: request_standard_def)
  have h2: "subscription_type request_10 = ''custom''"
    by (simp add: request_10_def)
  note t1 = price_and_mode_by_type[of request_standard example_config "quiet_stripe []"]
  note t2 = price_and_mode_by_type[of request_10 example_config "quiet_stripe [old_price]"]
  from t1 h1 have a: "resolve_price example_config request_standard (quiet_stripe []) =
       (Inr (''price_standard'', ''subscription''), quiet_stripe [])"
    by (simp add: example_config_def)
  from t2 h2 resolve_request_10
  have b: "\<exists>args. calls (snd (create_subscription_session example_config request_10
                  (quiet_stripe [old_price]))) =
          [Price_list_call ''prod_custom'' 100, Session_create_call args]
        \<and> line_items args = [\<lparr>item_price = ''price_old'', quantity = 1\<rparr>]
        \<and> mode args = ''payment''"
    by simp
  from h1 a h2 resolve_request_10 b show ?thesis by blast
qed

text \<open>
  C8. Once a price id and a mode are resolved, the handler makes one more call to the
  provider, the creation of a session with: the payment method types \<open>[card]\<close>; one line
  item, of the resolved price id and quantity 1; the resolved mode; the request's
  \<open>user_email\<close> as customer email and as the metadata entry \<open>user_email\<close>; the success and
  cancel urls \<open>DOMAIN\<close> followed by \<open>/success.html\<close> and \<open>/cancel.html\<close>. If that call
  succeeds the handler returns \<open>{url: u}\<close> for the url \<open>u\<close> of the session created.
\<close>

theorem session_creation_call:
  assumes "resolve_price cfg request s = (Inr (pid, m), s1)"
  shows "calls (snd (create_subscription_session cfg request s)) =
           calls s1 @ [Session_create_call
             \<lparr>payment_method_types = [''card''],
              line_items = [\<lparr>item_price = pid, quantity = 1\<rparr>],
              mode = m,
              customer_email = user_email request,
              success_url = DOMAIN @ ''/success.html'',
              cancel_url = DOMAIN @ ''/cancel.html'',
              metadata = [(''user_email'', user_email request)]\<rparr>]
     \<and> (fault s1 (length (calls s1)) = None \<longrightarrow>
          fst (create_subscription_session cfg request s) =
            Inr [(''url'', session_url s1 (length (sessions s1)))]
          \<and> (\<exists>cs. sessions (snd (create_subscription_session cfg request s)) =
                     sessions s1 @ [cs]
                 \<and> url cs = session_url s1 (length (sessions s1))))"
proof (intro conjI impI)
  from session_call_logged[OF assms]
  show "calls (snd (create_subscription_session cfg request s)) =
           calls s1 @ [Session_create_call
             \<lparr>payment_method_types = [''card''],
              line_items = [\<lparr>item_price = pid, quantity = 1\<rparr>],
              mode = m,
              customer_email = user_email request,
              success_url = DOMAIN @ ''/success.html'',
              cancel_url = DOMAIN @ ''/cancel.html'',
              metadata = [(''user_email'', user_email request)]\<rparr>]"
    by (simp add: session_args_def)
next
  assume f: "fault s1 (length (calls s1)) = None"
  from session_url_returned[OF assms f]
  show "fst (create_subscription_session cfg request s) =
            Inr [(''url'', session_url s1 (length (sessions s1)))]"
    by simp
  from session_url_returned[OF assms f]
  show "\<exists>cs. sessions (snd (create_subscription_session cfg request s)) = sessions s1 @ [cs]
                 \<and> url cs = session_url s1 (length (sessions s1))"
    by simp
qed

theorem session_creation_call_witness:
  "resolve_price example_config request_10 (quiet_stripe [old_price]) =
       (Inr (''price_old'', ''payment''),
        (quiet_stripe [old_price])\<lparr>calls := [Price_list_call ''prod_custom'' 100]\<rparr>)
   \<and> calls (snd (create_subscription_session example_config request_10
        (quiet_stripe [old_price]))) =
       [Price_list_call ''prod_custom'' 100,
        Session_create_call
          \<lparr>payment_method_types = [''card''],
           line_items = [\<lparr>item_price = ''price_old'', quantity = 1\<rparr>],
           mode = ''payment'',
           customer_email = ''a@b.com'',
           success_url = ''http://localhost:8000/success.html'',
           cancel_url = ''http://localhost:8000/cancel.html'',
           metadata = [(''user_email'', ''a@b.com'')]\<rparr>]
   \<and> fst (create_subscription_session example_config request_10 (quiet_stripe [old_price])) =
       Inr [(''url'', ''https://checkout.example/cs_1'')]"
proof -
  note t = session_creation_call[OF resolve_request_10]
  have f: "fault ((quiet_stripe [old_price])\<lparr>calls := [Price_list_call ''prod_custom'' 100]\<rparr>)
             (length (calls ((quiet_stripe [old_price])
                \<lparr>calls := [Price_list_call ''prod_custom'' 100]\<rparr>))) = None"
    by (simp add: quiet_stripe_def)
  from t have "calls (snd (create_subscription_session example_config request_10
        (quiet_stripe [old_price]))) =
       [Price_list_call ''prod_custom'' 100,
        Session_create_call
          \<lparr>payment_method_types = [''card''],
           line_items = [\<lparr>item_price = ''price_old'', quantity = 1\<rparr>],
           mode = ''payment'',
           customer_email = ''a@b.com'',
           success_url = ''http://localhost:8000/success.html'',
           cancel_url = ''http://localhost:8000/cancel.html'',
           metadata = [(''user_email'', ''a@b.com'')]\<rparr>]"
    by (simp add: request_10_def DOMAIN_def)
  moreover from t f
  have "fst (create_subscription_session example_config request_10 (quiet_stripe [old_price])) =
       Inr [(''url'', ''https://checkout.example/cs_1'')]"
    by (simp add: quiet_stripe_def)
  ultimately show ?thesis using resolve_request_10 by blast
qed


text \<open>
  C9. A call to the provider that fails ends the request: it is the last call made, and
  the handler raises an \<^verbatim>\<open>HTTPException\<close> of status 400 whose detail is \<open>Stripe error:\<close>
  followed by the provider's user message (\<open>None\<close> when the error carries none). Any
  other failure of the \<^verbatim>\<open>try\<close> block is a \<^verbatim>\<open>ValueError\<close> or an \<^verbatim>\<open>OverflowError\<close>; it is raised
  before any call, and reported with status 400 and the detail \<open>An error occurred:\<close>
  followed by its text. No exception leaves the handler unhandled, and a request makes at
  most three calls.
\<close>

theorem checkout_errors_reported:
  "(\<forall>k um. length (calls s) \<le> k
        \<and> k < length (calls (snd (create_subscription_session cfg request s)))
        \<and> fault s k = Some um \<longrightarrow>
       fst (create_subscription_session cfg request s) =
         Inl (HTTPException 400 (''Stripe error: '' @ (case um of None \<Rightarrow> ''None'' | Some m \<Rightarrow> m)))
       \<and> Suc k = length (calls (snd (create_subscription_session cfg request s))))
   \<and> (\<forall>e s'. try_block cfg request s = (Inl e, s') \<and> (\<forall>um. e \<noteq> StripeError um) \<longrightarrow>
         (\<exists>m. (e = ValueError m \<or> e = OverflowError m)
            \<and> create_subscription_session cfg request s =
                 (Inl (HTTPException 400 (''An error occurred: '' @ m)), s)))
   \<and> (\<forall>e. fst (create_subscription_session cfg request s) \<noteq> Inl (Unhandled e))
   \<and> length (calls (snd (create_subscription_session cfg request s))) \<le> length (calls s) + 3"
proof -
  obtain new where new: "calls (snd (try_block cfg request s)) = calls s @ new" "length new \<le> 3"
    "\<forall>k<length new. \<forall>um. fault s (length (calls s) + k) = Some um \<longrightarrow>
           Suc k = length new \<and> fst (try_block cfg request s) = Inl (StripeError um)"
    using try_block_calls by blast
  have snd_eq: "snd (create_subscription_session cfg request s) = snd (try_block cfg request s)"
    by (simp add: css_of_try_block split: sum.splits)
  have a: "fst (create_subscription_session cfg request s) =
         Inl (HTTPException 400 (''Stripe error: '' @ (case um of None \<Rightarrow> ''None'' | Some m \<Rightarrow> m)))
       \<and> Suc k = length (calls (snd (create_subscription_session cfg request s)))"
    if k: "length (calls s) \<le> k" "k < length (calls (snd (create_subscription_session cfg request s)))"
      "fault s k = Some um" for k um
  proof -
    let ?j = "k - length (calls s)"
    from k new(1) have j: "?j < length new" by (simp add: snd_eq)
    from k have kj: "length (calls s) + ?j = k" by simp
    from new(3) j k(3) kj have "Suc ?j = length new
        \<and> fst (try_block cfg request s) = Inl (StripeError um)" by simp
    then have "Suc k = length (calls s) + length new"
      and "fst (try_block cfg request s) = Inl (StripeError um)"
      using k(1) by linarith+
    then show ?thesis using new(1) by (simp add: css_of_try_block snd_eq)
  qed
  have b: "\<exists>m. (e = ValueError m \<or> e = OverflowError m)
            \<and> create_subscription_session cfg request s =
                 (Inl (HTTPException 400 (''An error occurred: '' @ m)), s)"
    if "try_block cfg request s = (Inl e, s')" "\<forall>um. e \<noteq> StripeError um" for e s'
    using try_block_error_kinds[OF that(1)] that
    by (auto simp: create_subscription_session_def)
  have c: "fst (create_subscription_session cfg request s) \<noteq> Inl (Unhandled e)" for e
  proof (cases "fst (try_block cfg request s)")
    case (Inl x)
    then show ?thesis by (cases x) (simp_all add: css_of_try_block)
  next
    case (Inr r)
    then show ?thesis by (simp add: css_of_try_block)
  qed
  have d: "length (calls (snd (create_subscription_session cfg request s))) \<le> length (calls s) + 3"
    using new by (simp add: snd_eq)
  from a b c d show ?thesis by blast
qed

theorem checkout_errors_reported_witness:
  "length (calls declining_stripe) = 0
   \<and> 0 < length (calls (snd (create_subscription_session example_config request_standard
            declining_stripe)))
   \<and> fault declining_stripe 0 = Some (Some ''Your card was declined.'')
   \<and> create_subscription_session example_config request_standard declining_stripe =
       (Inl (HTTPException 400 ''Stripe error: Your card was declined.''),
        declining_stripe\<lparr>calls := [Session_create_call
           (session_args request_standard ''price_standard'' ''subscription'')]\<rparr>)
   \<and> try_block example_config request_premium (quiet_stripe []) =
       (Inl (ValueError invalid_type_message), quiet_stripe [])
   \<and> fst (create_subscription_session example_config request_premium (quiet_stripe [])) =
       Inl (HTTPException 400 (''An error occurred: '' @ invalid_type_message))"
proof -
  have run: "create_subscription_session example_config request_standard declining_stripe =
       (Inl (HTTPException 400 ''Stripe error: Your card was declined.''),
        declining_stripe\<lparr>calls := [Session_create_call
           (session_args request_standard ''price_standard'' ''subscription'')]\<rparr>)"
    by (simp add: handler_defs provider_defs example_config_def quiet_stripe_def Let_def
        request_standard_def declining_stripe_def)
  have h1: "length (calls declining_stripe) = 0"
    by (simp add: declining_stripe_def quiet_stripe_def)
  have h2: "0 < length (calls (snd (create_subscription_session example_config request_standard
            declining_stripe)))"
    by (simp add: run)
  have h3: "fault declining_stripe 0 = Some (Some ''Your card was declined.'')"
    by (simp add: declining_stripe_def quiet_stripe_def)
  have tb: "try_block example_config request_premium (quiet_stripe []) =
       (Inl (ValueError invalid_type_message), quiet_stripe [])"
    by (simp add: try_block_def resolve_price_def request_premium_def)
  note t1 = checkout_errors_reported[of declining_stripe example_config request_standard]
  note t2 = checkout_errors_reported[of "quiet_stripe []" example_config request_premium]
  from t1 h1 h2 h3
  have "fst (create_subscription_session example_config request_standard declining_stripe) =
         Inl (HTTPException 400 ''Stripe error: Your card was declined.'')"
    by force
  from t2 tb
  have "\<exists>m. (ValueError invalid_type_message = ValueError m
               \<or> ValueError invalid_type_message = OverflowError m)
          \<and> create_subscription_session example_config request_premium (quiet_stripe []) =
               (Inl (HTTPException 400 (''An error occurred: '' @ m)), quiet_stripe [])"
    by blast
  then have "fst (create_subscription_session example_config request_premium (quiet_stripe [])) =
       Inl (HTTPException 400 (''An error occurred: '' @ invalid_type_message))"
    by auto
  with h1 h2 h3 run tb show ?thesis by blast
qed

text \<open>
  C10. \<^verbatim>\<open>get_existing_price\<close> makes one listing call, for the product and with limit 100,
  and changes nothing else. When the call succeeds it looks at the page returned, which
  holds the first 100 prices listed for the product at most: it returns the id of the
  first price of the page whose amount and currency are the ones asked for, and
  \<^verbatim>\<open>None\<close> exactly when the page holds no such price, whatever the listing holds after
  the page.
\<close>

theorem lookup_window:
  assumes "fault s (length (calls s)) = None"
  shows "snd (get_existing_price product_id amount cur s) =
           s\<lparr>calls := calls s @ [Price_list_call product_id 100]\<rparr>
     \<and> first_page product_id s = take 100 (filter (\<lambda>p. product p = product_id) (prices s))
     \<and> length (first_page product_id s) \<le> 100
     \<and> (\<exists>r. fst (get_existing_price product_id amount cur s) = Inr r
          \<and> (r = None \<longleftrightarrow>
               (\<forall>p\<in>set (first_page product_id s). \<not> (unit_amount p = amount \<and> currency p = cur)))
          \<and> (\<forall>i. r = Some i \<longrightarrow>
               (\<exists>k<length (first_page product_id s).
                   id_of (first_page product_id s ! k) = i
                 \<and> unit_amount (first_page product_id s ! k) = amount
                 \<and> currency (first_page product_id s ! k) = cur
                 \<and> (\<forall>j<k. \<not> (unit_amount (first_page product_id s ! j) = amount
                               \<and> currency (first_page product_id s ! j) = cur)))))"
proof -
  have g: "get_existing_price product_id amount cur s =
      (Inr (first_match (first_page product_id s) amount cur),
       s\<lparr>calls := calls s @ [Price_list_call product_id 100]\<rparr>)"
    using assms by (simp add: get_existing_price_def Price_list_def first_page_def)
  have l: "length (first_page product_id s) \<le> 100"
    by (simp add: first_page_def)
  show ?thesis
    unfolding g using l first_match_None_iff[of "first_page product_id s" amount cur]
      first_match_Some[of "first_page product_id s" amount cur]
    by (simp add: first_page_def[symmetric])
qed

theorem lookup_window_witness:
  "fault (quiet_stripe (replicate 100 other_price @ [old_price]))
      (length (calls (quiet_stripe (replicate 100 other_price @ [old_price])))) = None
   \<and> first_page ''prod_custom'' (quiet_stripe (replicate 100 other_price @ [old_price])) =
       replicate 100 other_price
   \<and> fst (get_existing_price ''prod_custom'' 1000 ''eur''
            (quiet_stripe (replicate 100 other_price @ [old_price]))) = Inr None
   \<and> fst (get_existing_price ''prod_custom'' 500 ''eur''
            (quiet_stripe (replicate 100 other_price @ [old_price]))) = Inr (Some ''price_other'')"
proof -
  let ?s = "quiet_stripe (replicate 100 other_price @ [old_price])"
  have h: "fault ?s (length (calls ?s)) = None" by (simp add: quiet_stripe_def)
  have page: "first_page ''prod_custom'' ?s = replicate 100 other_price"
    by (simp add: first_page_def quiet_stripe_def other_price_def old_price_def)
  from lookup_window[OF h, of "''prod_custom''" 1000 "''eur''"]
  obtain r where r: "fst (get_existing_price ''prod_custom'' 1000 ''eur'' ?s) = Inr r"
    "r = None \<longleftrightarrow> (\<forall>p\<in>set (first_page ''prod_custom'' ?s).
        \<not> (unit_amount p = 1000 \<and> currency p = ''eur''))"
    by blast
  from r(2) have "r = None" unfolding page by (simp add: other_price_def)
  with r(1) have none: "fst (get_existing_price ''prod_custom'' 1000 ''eur'' ?s) = Inr None"
    by simp
  from lookup_window[OF h, of "''prod_custom''" 500 "''eur''"]
  obtain r' where r': "fst (get_existing_price ''prod_custom'' 500 ''eur'' ?s) = Inr r'"
    "r' = None \<longleftrightarrow> (\<forall>p\<in>set (first_page ''prod_custom'' ?s).
        \<not> (unit_amount p = 500 \<and> currency p = ''eur''))"
    "\<forall>i. r' = Some i \<longrightarrow> (\<exists>k<length (first_page ''prod_custom'' ?s).
        id_of (first_page ''prod_custom'' ?s ! k) = i)"
    by blast
  from r'(2) have "r' \<noteq> None" unfolding page by (simp add: other_price_def)
  then obtain i where i: "r' = Some i" by auto
  with r'(3) obtain k where "k < 100" "id_of (replicate 100 other_price ! k) = i"
    by (auto simp: page)
  then have "i = ''price_other''" by (simp add: other_price_def)
  with i r'(1) have some: "fst (get_existing_price ''prod_custom'' 500 ''eur'' ?s) =
      Inr (Some ''price_other'')" by simp
  from h page none some show ?thesis by blast
qed

section \<open>The webhook handler\<close>











end
